theory Spec2Isabelle
  imports Complex_Main "HOL-Library.Sublist"
begin

section \<open>JavaScript values\<close>

text \<open>
  The values that \<open>req.json()\<close>, \<open>auth.api.getSession\<close> and \<open>betterFetch\<close> hand to the
  code are parsed JSON. An object is the list of its own properties, one entry per key.
  The payload of a number is never inspected by the code modelled here.
\<close>

datatype json =
    JNull
  | JBool bool
  | JNum rat
  | JStr string
  | JArr "json list"
  | JObj "(string \<times> json) list"

text \<open>
  A property read \<open>v.k\<close> throws a \<open>TypeError\<close> when \<open>v\<close> is \<open>null\<close>; on every other
  JSON value it yields the property or \<open>undefined\<close> (\<open>None\<close>). The optional chain
  \<open>v?.k\<close> yields \<open>undefined\<close> for \<open>null\<close> as well. Only keys that are not built-in
  properties of strings and arrays are read by the code below.
\<close>

datatype zissue_path = Key string | Index nat

datatype zissue = invalid_type (issue_path: "zissue_path list") (expected: string)

datatype js_error =
    SyntaxError
  | TypeError
  | ZodError "zissue list"
  | OtherError string

fun own_property :: "json \<Rightarrow> string \<Rightarrow> json option" where
  "own_property (JObj kvs) k = map_of kvs k"
| "own_property _ k = None"

definition get_property :: "json \<Rightarrow> string \<Rightarrow> js_error + json option" where
  "get_property v k = (if v = JNull then Inl TypeError else Inr (own_property v k))"

definition optional_chain :: "json \<Rightarrow> string \<Rightarrow> json option" where
  "optional_chain v k = own_property v k"

text \<open>JavaScript truthiness, as \<open>!x\<close> and \<open>x ? a : b\<close> read it; \<open>None\<close> is \<open>undefined\<close>.\<close>

fun truthy :: "json option \<Rightarrow> bool" where
  "truthy None = False"
| "truthy (Some JNull) = False"
| "truthy (Some (JBool b)) = b"
| "truthy (Some (JNum n)) = (n \<noteq> 0)"
| "truthy (Some (JStr s)) = (s \<noteq> [])"
| "truthy (Some (JArr xs)) = True"
| "truthy (Some (JObj kvs)) = True"

section \<open>Schemas (zod)\<close>

text \<open>
  The schema combinators the source uses. \<open>zissues s p v\<close> lists the issues zod reports
  for the value \<open>v\<close> (\<open>None\<close> for a missing key) at path \<open>p\<close>; \<open>parse\<close> throws a
  \<open>ZodError\<close> carrying them when there is one. \<open>z.object\<close> ignores unknown keys: the
  value it returns is the input without them, and the code reads the schema's keys only,
  so \<open>zparse\<close> returns the input itself.
\<close>

datatype zschema =
    ZString
  | ZNumber
  | ZAny
  | ZArray zschema
  | ZObject "(string \<times> zschema) list"
  | ZOptional zschema
  | ZDefault zschema json
  | ZDescribe zschema string

fun zissues :: "zschema \<Rightarrow> zissue_path list \<Rightarrow> json option \<Rightarrow> zissue list" where
  "zissues ZString p v =
     (case v of Some (JStr s) \<Rightarrow> [] | _ \<Rightarrow> [invalid_type p ''string''])"
| "zissues ZNumber p v =
     (case v of Some (JNum n) \<Rightarrow> [] | _ \<Rightarrow> [invalid_type p ''number''])"
| "zissues ZAny p v = []"
| "zissues (ZArray s) p v =
     (case v of
        Some (JArr xs) \<Rightarrow>
          concat (map (\<lambda>ix. zissues s (p @ [Index (fst ix)]) (Some (snd ix))) (enumerate 0 xs))
      | _ \<Rightarrow> [invalid_type p ''array''])"
| "zissues (ZObject fields) p v =
     (case v of
        Some (JObj kvs) \<Rightarrow>
          concat (map (\<lambda>f. zissues (snd f) (p @ [Key (fst f)]) (map_of kvs (fst f))) fields)
      | _ \<Rightarrow> [invalid_type p ''object''])"
| "zissues (ZOptional s) p v = (case v of None \<Rightarrow> [] | Some x \<Rightarrow> zissues s p (Some x))"
| "zissues (ZDefault s d) p v = (case v of None \<Rightarrow> [] | Some x \<Rightarrow> zissues s p (Some x))"
| "zissues (ZDescribe s d) p v = zissues s p v"

definition zparse :: "zschema \<Rightarrow> json \<Rightarrow> js_error + json" where
  "zparse s v = (case zissues s [] (Some v) of [] \<Rightarrow> Inr v | i # is \<Rightarrow> Inl (ZodError (i # is)))"

section \<open>The tool registry (route.ts, lines 23-107)\<close>

record patch_input =
  path :: string
  diff :: string
  explanation :: string

record patch_proposal =
  path :: string
  diff :: string
  explanation :: string
  status :: string
  message :: string

text \<open>
  An executor runs on the server, on an input that has passed the tool's \<open>inputSchema\<close>.
  It is embedded with the external state \<open>'w\<close> (file system, network, console) passed in
  and out, so that what it does to that state is part of its value.
\<close>

record 'w tool_decl =
  description :: string
  inputSchema :: zschema
  outputSchema :: "zschema option"
  execute :: "(patch_input \<Rightarrow> 'w \<Rightarrow> patch_proposal \<times> 'w) option"

definition newline :: string where
  "newline = [CHR 0x0A]"

fun join_lines :: "string list \<Rightarrow> string" where
  "join_lines [] = []"
| "join_lines [l] = l"
| "join_lines (l # ls) = l @ newline @ join_lines ls"

definition editFileWithPatch_description :: string where
  "editFileWithPatch_description = join_lines
    [''Edit a file by applying a unified diff patch. Use this tool when you want to suggest changes to code files. '',
     ''    '',
     ''The patch should be in unified diff format with:'',
     ''- File paths (--- and +++)'',
     ''- Hunk headers (@@ -start,count +start,count @@)'',
     ''- Context lines (starting with space)'',
     ''- Removed lines (starting with -)'',
     ''- Added lines (starting with +)'',
     '''',
     ''Include 3+ lines of context before and after changes for accurate patching.'']"

definition diff_description :: string where
  "diff_description = join_lines
    [''The unified diff patch to apply. Example:'',
     ''--- /src/app/page.tsx'',
     ''+++ /src/app/page.tsx'',
     ''@@ -1,5 +1,5 @@'',
     '' export default function Home() {'',
     ''-  return <div>Hello</div>'',
     ''+  return <div>Hello World</div>'',
     '' }'',
     '''']"

definition editFileWithPatch_execute :: "patch_input \<Rightarrow> 'w \<Rightarrow> patch_proposal \<times> 'w" where
  "editFileWithPatch_execute inp w =
     (\<lparr> path = patch_input.path inp,
        diff = patch_input.diff inp,
        explanation = patch_input.explanation inp,
        status = ''pending_approval'',
        message = ''Suggested edit to '' @ patch_input.path inp @ '': '' @ patch_input.explanation inp \<rparr>,
      w)"

definition tools :: "(string \<times> 'w tool_decl) list" where
  "tools =
    [(''listFiles'',
        \<lparr> description = ''List files in a directory'',
          inputSchema = ZObject [(''path'', ZDescribe ZString ''The path to list files from'')],
          outputSchema = None,
          execute = None \<rparr>),
     (''readFile'',
        \<lparr> description = ''Read a file'',
          inputSchema = ZObject [(''path'', ZDescribe ZString ''The path to read the file from'')],
          outputSchema = None,
          execute = None \<rparr>),
     (''createFile'',
        \<lparr> description = ''Create a file'',
          inputSchema = ZObject
            [(''path'', ZDescribe ZString ''The path to create the file at''),
             (''content'', ZDescribe ZString ''The content of the file'')],
          outputSchema = None,
          execute = None \<rparr>),
     (''createFolder'',
        \<lparr> description = ''Create a folder'',
          inputSchema = ZObject [(''path'', ZDescribe ZString ''The path to create the folder at'')],
          outputSchema = None,
          execute = None \<rparr>),
     (''runCommand'',
        \<lparr> description = ''Run a command'',
          inputSchema = ZObject
            [(''command'', ZDescribe ZString ''The command to run''),
             (''cwd'', ZOptional (ZDescribe ZString ''The working directory to run the command in'')),
             (''outputLimit'',
                ZOptional (ZDescribe (ZDefault ZNumber (JNum 1000))
                  ''The maximum number of characters to return in the output''))],
          outputSchema = Some (ZDescribe ZString ''The output of the command (sliced to the outputLimit)''),
          execute = None \<rparr>),
     (''editFileWithPatch'',
        \<lparr> description = editFileWithPatch_description,
          inputSchema = ZObject
            [(''path'', ZDescribe ZString ''The file path to edit (e.g., /src/app/page.tsx)''),
             (''diff'', ZDescribe ZString diff_description),
             (''explanation'',
                ZDescribe ZString ''Brief explanation of what changes are being made and why'')],
          outputSchema = None,
          execute = Some editFileWithPatch_execute \<rparr>)]"

definition has_executor :: "'w tool_decl \<Rightarrow> bool" where
  "has_executor t = (case execute t of None \<Rightarrow> False | Some f \<Rightarrow> True)"

definition tool_names :: "(string \<times> 'w tool_decl) list \<Rightarrow> string list" where
  "tool_names ts = map fst ts"

definition server_executed :: "(string \<times> 'w tool_decl) list \<Rightarrow> string list" where
  "server_executed ts = map fst (filter (\<lambda>nt. has_executor (snd nt)) ts)"

section \<open>The chat endpoint (route.ts, lines 12-20 and 112-198)\<close>

definition requestSchema :: zschema where
  "requestSchema = ZObject
     [(''messages'', ZArray ZAny),
      (''currentFile'', ZOptional (ZObject [(''path'', ZString), (''content'', ZString)]))]"

record current_file =
  path :: string
  content :: string

record chat_request =
  messages :: "json list"
  currentFile :: "current_file option"

text \<open>
  The destructuring \<open>const { messages, currentFile } = requestSchema.parse(body)\<close> reads
  the two keys of the value that passed the schema.
\<close>

definition destructure :: "json \<Rightarrow> chat_request" where
  "destructure v =
     \<lparr> messages = (case own_property v ''messages'' of Some (JArr ms) \<Rightarrow> ms | _ \<Rightarrow> []),
       currentFile =
         (case own_property v ''currentFile'' of
            None \<Rightarrow> None
          | Some cf \<Rightarrow>
              (case (own_property cf ''path'', own_property cf ''content'') of
                 (Some (JStr p), Some (JStr c)) \<Rightarrow> Some \<lparr> path = p, content = c \<rparr>
               | _ \<Rightarrow> None)) \<rparr>"

definition backslash_n :: string where
  "backslash_n = [CHR 0x5C, CHR ''n'']"

definition systemPrompt :: "current_file option \<Rightarrow> string" where
  \<open>systemPrompt current =
     (case current of
        Some cf \<Rightarrow> join_lines
          [''You are an AI coding assistant integrated into a code editor, similar to Cursor AI.'',
           '''',
           ''Current file being edited:'',
           ''- Path: '' @ current_file.path cf,
           ''- Content:'',
           ''```'',
           current_file.content cf,
           ''```'',
           '''',
           ''When suggesting code changes, you MUST use the editFileWithPatch tool:'',
           ''1. Call editFileWithPatch with the file path, diff patch, and explanation'',
           ''2. The diff should be in unified diff format with:'',
           ''   - File paths (--- and +++)'',
           ''   - Hunk headers (@@ -start,count +start,count @@)'',
           ''   - Context lines (starting with space)'',
           ''   - Removed lines (starting with -)'',
           ''   - Added lines (starting with +)'',
           ''3. Include at least 3 lines of context before and after changes'',
           ''4. Provide a clear explanation of what you're changing and why'',
           '''',
           ''Example tool call:'',
           ''{'',
           ''  "path": "'' @ current_file.path cf @ ''",'',
           ''  "diff": "--- '' @ current_file.path cf @ backslash_n @ ''+++ '' @ current_file.path cf
             @ backslash_n @ ''@@ -10,3 +10,3 @@'' @ backslash_n @ '' function test() {''
             @ backslash_n @ ''-  return false;'' @ backslash_n @ ''+  return true;''
             @ backslash_n @ '' }",'',
           ''  "explanation": "Changed return value from false to true to fix the logic"'',
           ''}'',
           '''',
           ''The user can then accept or reject your suggested changes in the UI.'']
      | None \<Rightarrow>
          ''You are an AI coding assistant. Help the user with their coding questions. When you need to suggest code changes, use the editFileWithPatch tool.'')\<close>

text \<open>
  What the handler does beyond returning a response: console output and the call of the
  model client. A \<open>js_value\<close> is what is logged or serialised: a string, a JSON value or
  \<open>undefined\<close>, a caught error, or the issue list of a \<open>ZodError\<close>. The \<open>tools\<close> and
  \<open>abortSignal\<close> arguments of \<open>streamText\<close> are the registry constant and the request's
  own signal in every call, so the event does not repeat them.
\<close>

datatype js_value = Str string | Val "json option" | Err js_error | Issues "zissue list"

record 'm streamText_args =
  model :: string
  system :: string
  messages :: 'm

datatype 'm event =
    console_log "js_value list"
  | console_error "js_value list"
  | streamText "'m streamText_args"

datatype response_body =
    Text string
  | JSON_stringify "(string \<times> js_value) list"

datatype 'm http_response =
    Response response_body nat "(string \<times> string) list"
  | toUIMessageStreamResponse "'m streamText_args"

text \<open>
  The two awaited reads of the request: the outcome of
  \<open>auth.api.getSession({ headers: req.headers })\<close> and the outcome of \<open>req.json()\<close>, which
  rejects with a \<open>SyntaxError\<close> when the body is not JSON.
\<close>

record request =
  getSession :: "js_error + json"
  req_json :: "js_error + json"

text \<open>
  \<open>x?.length\<close> in the log line: arrays and strings have a length, an object has the one
  it holds under that key, if any.
\<close>

fun optional_length :: "json option \<Rightarrow> json option" where
  "optional_length (Some (JArr xs)) = Some (JNum (of_nat (length xs)))"
| "optional_length (Some (JStr s)) = Some (JNum (of_nat (length s)))"
| "optional_length (Some (JObj kvs)) = map_of kvs ''length''"
| "optional_length _ = None"

text \<open>
  The body of the \<open>try\<close> block: the value is the response returned, or the error thrown,
  together with the events up to that point. \<open>convertToModelMessages\<close> is the library
  function, taken as a parameter; it may throw.
\<close>

definition POST_try ::
  "(json list \<Rightarrow> js_error + 'm) \<Rightarrow> request \<Rightarrow> (js_error + 'm http_response) \<times> 'm event list" where
  "POST_try convertToModelMessages req =
     (case getSession req of
        Inl e \<Rightarrow> (Inl e, [])
      | Inr session \<Rightarrow>
          if \<not> truthy (optional_chain session ''user'') then
            (Inr (Response (Text ''Unauthorized'') 401 []),
             [console_log [Str ''[API] Unauthorized request'']])
          else
            (case req_json req of
               Inl e \<Rightarrow> (Inl e, [])
             | Inr body \<Rightarrow>
                 (case get_property body ''messages'' of
                    Inl e \<Rightarrow> (Inl e, [])
                  | Inr body_messages \<Rightarrow>
                      let log1 = [console_log [Str ''[API] Received request with'',
                                    Val (optional_length body_messages), Str ''messages'']]
                      in
                      (case zparse requestSchema body of
                         Inl e \<Rightarrow> (Inl e, log1)
                       | Inr parsed \<Rightarrow>
                           let r = destructure parsed;
                               log2 = log1 @ [console_log [Str ''[API] Parsed successfully. Current file:'',
                                        Val (map_option (\<lambda>cf. JStr (current_file.path cf)) (currentFile r))]];
                               log3 = log2 @ [console_log [Str ''[API] Converting messages for model...'']]
                           in
                           (case convertToModelMessages (chat_request.messages r) of
                              Inl e \<Rightarrow> (Inl e, log3)
                            | Inr model_messages \<Rightarrow>
                                let args = \<lparr> model = ''anthropic/claude-sonnet-4.5'',
                                             system = systemPrompt (currentFile r),
                                             messages = model_messages \<rparr>
                                in
                                (Inr (toUIMessageStreamResponse args),
                                 log3 @ [streamText args,
                                   console_log [Str ''[API] Stream created, returning UI message stream response'']]))))))"

text \<open>
  The \<open>catch\<close> block. \<open>error.errors\<close> is the issue list of the \<open>ZodError\<close>.
\<close>

definition POST_catch :: "js_error \<Rightarrow> 'm http_response \<times> 'm event list" where
  "POST_catch error =
     (case error of
        ZodError errors \<Rightarrow>
          (Response
             (JSON_stringify [(''error'', Str ''Invalid request''), (''details'', Issues errors)])
             400 [(''Content-Type'', ''application/json'')],
           [console_error [Str ''[API] Chat error:'', Err error],
            console_error [Str ''[API] Validation error:'', Issues errors]])
      | _ \<Rightarrow>
          (Response (Text ''Internal Server Error'') 500 [],
           [console_error [Str ''[API] Chat error:'', Err error]]))"

definition POST ::
  "(json list \<Rightarrow> js_error + 'm) \<Rightarrow> request \<Rightarrow> 'm http_response \<times> 'm event list" where
  "POST convertToModelMessages req =
     (case POST_try convertToModelMessages req of
        (Inr response, events) \<Rightarrow> (response, events)
      | (Inl error, events) \<Rightarrow> (fst (POST_catch error), events @ snd (POST_catch error)))"

fun response_status :: "'m http_response \<Rightarrow> nat option" where
  "response_status (Response b s h) = Some s"
| "response_status (toUIMessageStreamResponse args) = None"

fun model_calls :: "'m event list \<Rightarrow> 'm streamText_args list" where
  "model_calls [] = []"
| "model_calls (streamText args # es) = args # model_calls es"
| "model_calls (e # es) = model_calls es"

text \<open>The two defects of a request body that the validator is there to reject.\<close>

fun is_string :: "json option \<Rightarrow> bool" where
  "is_string (Some (JStr s)) = True"
| "is_string _ = False"

definition missing_messages :: "json \<Rightarrow> bool" where
  "missing_messages body = (own_property body ''messages'' = None)"

definition malformed_currentFile :: "json \<Rightarrow> bool" where
  "malformed_currentFile body =
     (case own_property body ''currentFile'' of
        None \<Rightarrow> False
      | Some cf \<Rightarrow> \<not> is_string (own_property cf ''path'') \<or> \<not> is_string (own_property cf ''content''))"

fun response_text :: "'m http_response \<Rightarrow> string option" where
  "response_text (Response (Text t) s h) = Some t"
| "response_text r = None"

section \<open>Route protection (middleware.ts)\<close>

record url =
  origin :: string
  pathname :: string
  searchParams :: "(string \<times> string) list"

record next_request =
  nextUrl :: url
  cookie :: "string option"

record fetch_options =
  baseURL :: string
  headers :: "(string \<times> string) list"

record fetch_result =
  data :: json
  error :: json

datatype next_response = NextResponse_next | NextResponse_redirect url

definition startsWith :: "string \<Rightarrow> string \<Rightarrow> bool" where
  "startsWith s p = prefix p s"

definition endsWith :: "string \<Rightarrow> string \<Rightarrow> bool" where
  "endsWith s p = suffix p s"

text \<open>\<open>request.headers.get("cookie") || ""\<close>: a missing or empty header gives \<open>""\<close>.\<close>

definition cookie_or_empty :: "next_request \<Rightarrow> string" where
  "cookie_or_empty request = (case cookie request of None \<Rightarrow> '''' | Some c \<Rightarrow> c)"

text \<open>
  \<open>new URL("/auth/login", request.url)\<close> keeps the origin of the request and drops its
  query; \<open>searchParams.set\<close> replaces the first entry of the key and deletes the others,
  or appends the entry when the key is absent.
\<close>

definition new_URL :: "string \<Rightarrow> url \<Rightarrow> url" where
  "new_URL p base = \<lparr> origin = origin base, pathname = p, searchParams = [] \<rparr>"

fun searchParams_set :: "string \<Rightarrow> string \<Rightarrow> (string \<times> string) list \<Rightarrow> (string \<times> string) list" where
  "searchParams_set k v [] = [(k, v)]"
| "searchParams_set k v ((k', v') # ps) =
     (if k' = k then (k, v) # filter (\<lambda>kv. fst kv \<noteq> k) ps
      else (k', v') # searchParams_set k v ps)"

text \<open>
  \<open>betterFetch\<close> is the library call, taken as a parameter; it resolves to
  \<open>{ data, error }\<close>, or rejects when the request cannot be made. The middleware has no
  \<open>try\<close> block, so a rejection is its own outcome. The value of \<open>middleware\<close> is the
  response, or the error thrown, together with the session lookups performed, as the
  options they were called with.
\<close>

definition middleware ::
  "(string \<Rightarrow> fetch_options \<Rightarrow> js_error + fetch_result) \<Rightarrow> next_request
     \<Rightarrow> (js_error + next_response) \<times> fetch_options list" where
  "middleware betterFetch request =
     (let p = pathname (nextUrl request) in
      if startsWith p ''/auth/login'' \<or> startsWith p ''/auth/signup'' \<or> startsWith p ''/api/''
      then (Inr NextResponse_next, [])
      else
        let options = \<lparr> baseURL = origin (nextUrl request),
                         headers = [(''cookie'', cookie_or_empty request)] \<rparr>
        in
        (case betterFetch ''/api/auth/get-session'' options of
           Inl e \<Rightarrow> (Inl e, [options])
         | Inr session \<Rightarrow>
             if \<not> truthy (Some (data session)) then
               let loginUrl = new_URL ''/auth/login'' (nextUrl request);
                   loginUrl = loginUrl \<lparr> searchParams :=
                                searchParams_set ''redirect'' p (searchParams loginUrl) \<rparr>
               in (Inr (NextResponse_redirect loginUrl), [options])
             else (Inr NextResponse_next, [options])))"

text \<open>
  The matcher of \<open>config\<close>:
  \<^verbatim>\<open>/((?!_next/static|_next/image|favicon.ico|.*\.(?:svg|png|jpg|jpeg|gif|webp)$).*)\<close>
  matched against the whole pathname. \<open>regex_dot\<close> is the class of \<open>.\<close> (no line
  terminator); \<open>lookahead\<close> is the alternation under \<open>(?!...)\<close>, read at the position
  after the leading slash. The framework runs \<open>middleware\<close> on the paths the matcher
  matches and lets every other request through.
\<close>

definition regex_dot :: "char \<Rightarrow> bool" where
  "regex_dot c = (c \<noteq> CHR 0x0A \<and> c \<noteq> CHR 0x0D)"

definition image_extensions :: "string list" where
  "image_extensions = [''svg'', ''png'', ''jpg'', ''jpeg'', ''gif'', ''webp'']"

definition lookahead_favicon :: "string \<Rightarrow> bool" where
  "lookahead_favicon rest =
     (11 \<le> length rest \<and> take 7 rest = ''favicon'' \<and> regex_dot (rest ! 7)
      \<and> take 3 (drop 8 rest) = ''ico'')"

definition lookahead_extension :: "string \<Rightarrow> bool" where
  "lookahead_extension rest =
     list_ex (\<lambda>ext. endsWith rest (''.'' @ ext)
                \<and> list_all regex_dot (take (length rest - length (''.'' @ ext)) rest))
       image_extensions"

definition lookahead :: "string \<Rightarrow> bool" where
  "lookahead rest =
     (startsWith rest ''_next/static'' \<or> startsWith rest ''_next/image''
      \<or> lookahead_favicon rest \<or> lookahead_extension rest)"

fun matcher :: "string \<Rightarrow> bool" where
  "matcher [] = False"
| "matcher (c # rest) = (c = CHR ''/'' \<and> \<not> lookahead rest \<and> list_all regex_dot rest)"

definition run_middleware ::
  "(string \<Rightarrow> fetch_options \<Rightarrow> js_error + fetch_result) \<Rightarrow> next_request
     \<Rightarrow> (js_error + next_response) option \<times> fetch_options list" where
  "run_middleware betterFetch request =
     (if matcher (pathname (nextUrl request))
      then (Some (fst (middleware betterFetch request)), snd (middleware betterFetch request))
      else (None, []))"

text \<open>
  The two classes of paths that are not protected: static assets, which the matcher
  keeps away from the middleware, and the authentication pages and API routes, which
  the middleware lets through.
\<close>

definition static_asset_path :: "string \<Rightarrow> bool" where
  "static_asset_path p =
     (startsWith p ''/_next/static'' \<or> startsWith p ''/_next/image'' \<or> startsWith p ''/favicon.ico''
      \<or> list_ex (\<lambda>ext. endsWith p (''.'' @ ext)) image_extensions)"

definition auth_or_api_path :: "string \<Rightarrow> bool" where
  "auth_or_api_path p =
     (startsWith p ''/auth/login'' \<or> startsWith p ''/auth/signup'' \<or> startsWith p ''/api/'')"

text \<open>Stand-ins for the two answers of the session endpoint, used at concrete inputs.\<close>

definition fetch_no_session :: "string \<Rightarrow> fetch_options \<Rightarrow> js_error + fetch_result" where
  "fetch_no_session p options = Inr \<lparr> data = JNull, error = JNull \<rparr>"

definition fetch_session :: "string \<Rightarrow> fetch_options \<Rightarrow> js_error + fetch_result" where
  "fetch_session p options =
     Inr \<lparr> data = JObj [(''session'', JObj []), (''user'', JObj [(''id'', JStr ''u1'')])],
           error = JNull \<rparr>"

section \<open>Properties of the tool registry\<close>

text \<open>
  C1. For every input \<open>{path, diff, explanation}\<close> and every external state, the executor of
  \<open>editFileWithPatch\<close> returns exactly the record
  \<open>{ path, diff, explanation, status: "pending_approval", message }\<close>: path, diff and
  explanation are those of the input, the status is always \<open>pending_approval\<close>, the message
  is built from path and explanation only, and the external state comes back as it went
  in. The record is the same whatever the external state is, so two invocations with the
  same input yield the same record.
\<close>

theorem editFileWithPatch_execute_pure:
  "editFileWithPatch_execute inp w =
     (\<lparr> patch_proposal.path = patch_input.path inp,
        patch_proposal.diff = patch_input.diff inp,
        patch_proposal.explanation = patch_input.explanation inp,
        patch_proposal.status = ''pending_approval'',
        patch_proposal.message =
          ''Suggested edit to '' @ patch_input.path inp @ '': '' @ patch_input.explanation inp \<rparr>,
      w)
   \<and> fst (editFileWithPatch_execute inp w) = fst (editFileWithPatch_execute inp w')
   \<and> patch_proposal.status (fst (editFileWithPatch_execute inp w)) = ''pending_approval''"
  by (simp add: editFileWithPatch_execute_def)

text \<open>
  C7. The registry holds six tools, \<open>listFiles\<close>, \<open>readFile\<close>, \<open>createFile\<close>,
  \<open>createFolder\<close>, \<open>runCommand\<close> and \<open>editFileWithPatch\<close>, in this order and under
  pairwise distinct names. \<open>editFileWithPatch\<close> is the only one with a server-side
  executor, which is \<open>editFileWithPatch_execute\<close>; the five others declare none.
\<close>

theorem tools_six_one_executor:
  "tool_names (tools :: (string \<times> 'w tool_decl) list) =
     [''listFiles'', ''readFile'', ''createFile'', ''createFolder'', ''runCommand'', ''editFileWithPatch'']
   \<and> distinct (tool_names (tools :: (string \<times> 'w tool_decl) list))
   \<and> server_executed (tools :: (string \<times> 'w tool_decl) list) = [''editFileWithPatch'']
   \<and> map (\<lambda>nt. (fst nt, execute (snd nt))) (tools :: (string \<times> 'w tool_decl) list) =
       [(''listFiles'', None), (''readFile'', None), (''createFile'', None),
        (''createFolder'', None), (''runCommand'', None),
        (''editFileWithPatch'', Some editFileWithPatch_execute)]"
  by (simp add: tools_def tool_names_def server_executed_def has_executor_def)

section \<open>Properties of the chat endpoint\<close>

text \<open>
  C2. For every request whose headers do not resolve to a valid session, that is, for
  which \<open>!session?.user\<close> holds (the session is \<open>null\<close>, or it has no user), the handler
  answers with status 401 and the model client is never called.
\<close>

theorem POST_no_session_401_no_model_call:
  assumes "getSession req = Inr session"
    and "\<not> truthy (optional_chain session ''user'')"
  shows "response_status (fst (POST convertToModelMessages req)) = Some 401
         \<and> model_calls (snd (POST convertToModelMessages req)) = []"
  using assms by (simp add: POST_def POST_try_def)

theorem POST_no_session_401_no_model_call_witness:
  "response_status (fst (POST (Inr :: json list \<Rightarrow> js_error + json list)
      \<lparr> getSession = Inr JNull, req_json = Inr (JObj [(''messages'', JArr [])]) \<rparr>)) = Some 401
   \<and> model_calls (snd (POST (Inr :: json list \<Rightarrow> js_error + json list)
      \<lparr> getSession = Inr JNull, req_json = Inr (JObj [(''messages'', JArr [])]) \<rparr>)) = []
   \<and> response_status (fst (POST (Inr :: json list \<Rightarrow> js_error + json list)
      \<lparr> getSession = Inr (JObj [(''session'', JObj [])]), req_json = Inr (JObj [(''messages'', JArr [])]) \<rparr>)) = Some 401
   \<and> model_calls (snd (POST (Inr :: json list \<Rightarrow> js_error + json list)
      \<lparr> getSession = Inr (JObj [(''session'', JObj [])]), req_json = Inr (JObj [(''messages'', JArr [])]) \<rparr>)) = []"
proof -
  have null_session: "\<not> truthy (optional_chain JNull ''user'')"
    by (simp add: optional_chain_def)
  have no_user: "\<not> truthy (optional_chain (JObj [(''session'', JObj [])]) ''user'')"
    by (simp add: optional_chain_def)
  have a: "getSession \<lparr> getSession = Inr JNull, req_json = Inr (JObj [(''messages'', JArr [])]) \<rparr>
             = Inr JNull"
    by simp
  have b: "getSession \<lparr> getSession = Inr (JObj [(''session'', JObj [])]),
             req_json = Inr (JObj [(''messages'', JArr [])]) \<rparr> = Inr (JObj [(''session'', JObj [])])"
    by simp
  from POST_no_session_401_no_model_call [OF a null_session]
       POST_no_session_401_no_model_call [OF b no_user]
  show ?thesis by blast
qed

text \<open>
  Where the body is a JSON value other than \<open>null\<close>, a missing \<open>messages\<close> key or a
  \<open>currentFile\<close> whose \<open>path\<close> or \<open>content\<close> is not a string makes \<open>requestSchema.parse\<close>
  throw, and the handler answers 400 with \<open>{ error: "Invalid request", details }\<close> without
  calling the model.
\<close>

lemma requestSchema_issues:
  assumes "missing_messages body \<or> malformed_currentFile body"
  shows "zissues requestSchema [] (Some body) \<noteq> []"
proof (cases body)
  case (JObj kvs)
  show ?thesis
  proof (cases "map_of kvs ''messages''")
    case None
    with JObj show ?thesis by (simp add: requestSchema_def)
  next
    case (Some m)
    with JObj assms obtain cf where cf: "map_of kvs ''currentFile'' = Some cf"
      and bad: "\<not> is_string (own_property cf ''path'') \<or> \<not> is_string (own_property cf ''content'')"
      by (auto simp: missing_messages_def malformed_currentFile_def split: option.splits)
    have "zissues (ZObject [(''path'', ZString), (''content'', ZString)]) [Key ''currentFile''] (Some cf) \<noteq> []"
    proof (cases cf)
      case (JObj fs)
      with bad show ?thesis
        by (auto split: option.splits json.splits elim: is_string.elims)
    qed simp_all
    with JObj cf show ?thesis by (simp add: requestSchema_def)
  qed
qed (simp_all add: requestSchema_def)

lemma POST_invalid_body_400:
  assumes "getSession req = Inr session"
    and "truthy (optional_chain session ''user'')"
    and "req_json req = Inr body"
    and "body \<noteq> JNull"
    and "missing_messages body \<or> malformed_currentFile body"
  shows "fst (POST convertToModelMessages req) =
           Response (JSON_stringify [(''error'', Str ''Invalid request''),
                                     (''details'', Issues (zissues requestSchema [] (Some body)))])
             400 [(''Content-Type'', ''application/json'')]
         \<and> model_calls (snd (POST convertToModelMessages req)) = []"
proof -
  obtain i "is" where "zissues requestSchema [] (Some body) = i # is"
    using requestSchema_issues [OF assms(5)] by (cases "zissues requestSchema [] (Some body)") auto
  then have "zparse requestSchema body = Inl (ZodError (zissues requestSchema [] (Some body)))"
    by (simp add: zparse_def)
  with assms(1-4) show ?thesis
    by (simp add: POST_def POST_try_def POST_catch_def get_property_def)
qed

text \<open>
  C3. With a valid session and the request body \<open>null\<close>, which is valid JSON and has no
  \<open>messages\<close>, the read \<open>body.messages\<close> in the log line throws a \<open>TypeError\<close> before the
  schema is consulted: the handler answers 500 with the text \<open>Internal Server Error\<close>
  instead of the 400 validation response. No model call is made.
\<close>

theorem POST_null_body_500:
  "missing_messages JNull
   \<and> fst (POST (Inr :: json list \<Rightarrow> js_error + json list)
        \<lparr> getSession = Inr (JObj [(''user'', JObj [(''id'', JStr ''u1'')])]), req_json = Inr JNull \<rparr>)
      = Response (Text ''Internal Server Error'') 500 []
   \<and> snd (POST (Inr :: json list \<Rightarrow> js_error + json list)
        \<lparr> getSession = Inr (JObj [(''user'', JObj [(''id'', JStr ''u1'')])]), req_json = Inr JNull \<rparr>)
      = [console_error [Str ''[API] Chat error:'', Err TypeError]]"
  by (simp add: POST_def POST_try_def POST_catch_def get_property_def optional_chain_def
      missing_messages_def)

text \<open>
  C4. The claim that the 401 response has an empty body fails: the handler builds it with
  \<open>new Response("Unauthorized", { status: 401 })\<close>. For every request that fails the
  session check, the response is the status 401 with the plain-text body \<open>Unauthorized\<close>
  and no headers set by the handler.
\<close>

theorem POST_no_session_body_Unauthorized:
  assumes "getSession req = Inr session"
    and "\<not> truthy (optional_chain session ''user'')"
  shows "fst (POST convertToModelMessages req) = Response (Text ''Unauthorized'') 401 []"
  using assms by (simp add: POST_def POST_try_def)

theorem POST_no_session_body_Unauthorized_witness:
  "fst (POST (Inr :: json list \<Rightarrow> js_error + json list)
      \<lparr> getSession = Inr JNull, req_json = Inr (JObj []) \<rparr>) = Response (Text ''Unauthorized'') 401 []"
proof -
  have a: "getSession \<lparr> getSession = Inr JNull, req_json = Inr (JObj []) \<rparr> = Inr JNull"
    by simp
  have b: "\<not> truthy (optional_chain JNull ''user'')"
    by (simp add: optional_chain_def)
  show ?thesis by (rule POST_no_session_body_Unauthorized [OF a b])
qed

theorem POST_no_session_body_empty_counterexample:
  "response_status (fst (POST (Inr :: json list \<Rightarrow> js_error + json list)
      \<lparr> getSession = Inr JNull, req_json = Inr (JObj []) \<rparr>)) = Some 401
   \<and> response_text (fst (POST (Inr :: json list \<Rightarrow> js_error + json list)
      \<lparr> getSession = Inr JNull, req_json = Inr (JObj []) \<rparr>)) \<noteq> Some ''''"
  by (simp add: POST_def POST_try_def optional_chain_def)

text \<open>
  C9. For every request with a valid session whose body is not valid JSON, \<open>req.json()\<close>
  throws a \<open>SyntaxError\<close>, which is not a \<open>ZodError\<close>: the handler logs it and answers 500
  with the plain-text body \<open>Internal Server Error\<close>, not the 400 validation response, and
  makes no model call.
\<close>

theorem POST_bad_json_500:
  assumes "getSession req = Inr session"
    and "truthy (optional_chain session ''user'')"
    and "req_json req = Inl SyntaxError"
  shows "fst (POST convertToModelMessages req) = Response (Text ''Internal Server Error'') 500 []
         \<and> response_status (fst (POST convertToModelMessages req)) \<noteq> Some 400
         \<and> snd (POST convertToModelMessages req) = [console_error [Str ''[API] Chat error:'', Err SyntaxError]]"
  using assms by (simp add: POST_def POST_try_def POST_catch_def)

theorem POST_bad_json_500_witness:
  "fst (POST (Inr :: json list \<Rightarrow> js_error + json list)
      \<lparr> getSession = Inr (JObj [(''user'', JObj [(''id'', JStr ''u1'')])]), req_json = Inl SyntaxError \<rparr>)
     = Response (Text ''Internal Server Error'') 500 []"
proof -
  have a: "getSession \<lparr> getSession = Inr (JObj [(''user'', JObj [(''id'', JStr ''u1'')])]),
             req_json = Inl SyntaxError \<rparr> = Inr (JObj [(''user'', JObj [(''id'', JStr ''u1'')])])"
    by simp
  have b: "truthy (optional_chain (JObj [(''user'', JObj [(''id'', JStr ''u1'')])]) ''user'')"
    by (simp add: optional_chain_def)
  have c: "req_json \<lparr> getSession = Inr (JObj [(''user'', JObj [(''id'', JStr ''u1'')])]),
             req_json = Inl SyntaxError \<rparr> = Inl SyntaxError"
    by simp
  from POST_bad_json_500 [OF a b c] show ?thesis by blast
qed

section \<open>Properties of the prompt composer\<close>

lemma sublist_embed: "sublist xs ys \<Longrightarrow> sublist xs (ps @ ys @ ss)"
proof -
  assume "sublist xs ys"
  then obtain a b where "ys = a @ xs @ b"
    by (auto simp: sublist_def)
  then have "ps @ ys @ ss = (ps @ a) @ xs @ (b @ ss)"
    by simp
  then show ?thesis
    unfolding sublist_def by blast
qed

lemma line_in_join_lines: "l \<in> set ls \<Longrightarrow> sublist l (join_lines ls)"
proof (induction ls rule: join_lines.induct)
  case 1
  then show ?case by simp
next
  case (2 l')
  then show ?case by simp
next
  case (3 l' v va)
  show ?case
  proof (cases "l = l'")
    case True
    then show ?thesis by simp
  next
    case False
    with 3 have "sublist l (join_lines (v # va))" by simp
    then have "sublist l ((l' @ newline) @ join_lines (v # va) @ [])"
      by (rule sublist_embed)
    then show ?thesis by simp
  qed
qed

lemma part_of_line_in_join_lines:
  assumes "l \<in> set ls" and "l = a @ n @ b"
  shows "sublist n (join_lines ls)"
proof -
  from assms(1) obtain ps ss where "join_lines ls = ps @ l @ ss"
    using line_in_join_lines [of l ls] by (auto simp: sublist_def)
  with assms(2) have "join_lines ls = (ps @ a) @ n @ (b @ ss)"
    by simp
  then show ?thesis
    unfolding sublist_def by blast
qed

text \<open>
  C5. For every \<open>currentFile\<close> that is present, the system prompt contains its path and
  its content verbatim, the sentence that mandates the \<open>editFileWithPatch\<close> tool for
  suggested changes, the unified-diff requirements (file paths, hunk headers, at least
  3 lines of context) and the demand for an explanation. When \<open>currentFile\<close> is absent, the
  prompt is the generic coding-assistance text, which still directs the model to the
  \<open>editFileWithPatch\<close> tool.
\<close>

theorem systemPrompt_contents:
  \<open>sublist (current_file.path cf) (systemPrompt (Some cf))
   \<and> sublist (current_file.content cf) (systemPrompt (Some cf))
   \<and> sublist ''When suggesting code changes, you MUST use the editFileWithPatch tool'' (systemPrompt (Some cf))
   \<and> sublist ''The diff should be in unified diff format with:'' (systemPrompt (Some cf))
   \<and> sublist ''File paths (--- and +++)'' (systemPrompt (Some cf))
   \<and> sublist ''Hunk headers (@@ -start,count +start,count @@)'' (systemPrompt (Some cf))
   \<and> sublist ''Context lines (starting with space)'' (systemPrompt (Some cf))
   \<and> sublist ''Removed lines (starting with -)'' (systemPrompt (Some cf))
   \<and> sublist ''Added lines (starting with +)'' (systemPrompt (Some cf))
   \<and> sublist ''Include at least 3 lines of context before and after changes'' (systemPrompt (Some cf))
   \<and> sublist ''Provide a clear explanation of what you're changing and why'' (systemPrompt (Some cf))
   \<and> systemPrompt None =
       ''You are an AI coding assistant. Help the user with their coding questions. When you need to suggest code changes, use the editFileWithPatch tool.''
   \<and> sublist ''When you need to suggest code changes, use the editFileWithPatch tool.'' (systemPrompt None)\<close>
proof -
  have path: "sublist (current_file.path cf) (systemPrompt (Some cf))"
    unfolding systemPrompt_def option.case
    by (rule part_of_line_in_join_lines [where l = "''- Path: '' @ current_file.path cf"
          and a = "''- Path: ''" and b = "[]"]) simp_all
  have content: "sublist (current_file.content cf) (systemPrompt (Some cf))"
    unfolding systemPrompt_def option.case
    by (rule line_in_join_lines) simp
  have must: "sublist ''When suggesting code changes, you MUST use the editFileWithPatch tool'' (systemPrompt (Some cf))"
    unfolding systemPrompt_def option.case
    by (rule part_of_line_in_join_lines
          [where l = "''When suggesting code changes, you MUST use the editFileWithPatch tool:''"
          and a = "[]" and b = "'':''"]) simp_all
  have format: "sublist ''The diff should be in unified diff format with:'' (systemPrompt (Some cf))"
    unfolding systemPrompt_def option.case
    by (rule part_of_line_in_join_lines
          [where l = "''2. The diff should be in unified diff format with:''"
          and a = "''2. ''" and b = "[]"]) simp_all
  have paths: "sublist ''File paths (--- and +++)'' (systemPrompt (Some cf))"
    unfolding systemPrompt_def option.case
    by (rule part_of_line_in_join_lines
          [where l = "''   - File paths (--- and +++)''" and a = "''   - ''" and b = "[]"]) simp_all
  have hunks: "sublist ''Hunk headers (@@ -start,count +start,count @@)'' (systemPrompt (Some cf))"
    unfolding systemPrompt_def option.case
    by (rule part_of_line_in_join_lines
          [where l = "''   - Hunk headers (@@ -start,count +start,count @@)''"
          and a = "''   - ''" and b = "[]"]) simp_all
  have ctx: "sublist ''Context lines (starting with space)'' (systemPrompt (Some cf))"
    unfolding systemPrompt_def option.case
    by (rule part_of_line_in_join_lines
          [where l = "''   - Context lines (starting with space)''"
          and a = "''   - ''" and b = "[]"]) simp_all
  have removed: "sublist ''Removed lines (starting with -)'' (systemPrompt (Some cf))"
    unfolding systemPrompt_def option.case
    by (rule part_of_line_in_join_lines
          [where l = "''   - Removed lines (starting with -)''"
          and a = "''   - ''" and b = "[]"]) simp_all
  have added: "sublist ''Added lines (starting with +)'' (systemPrompt (Some cf))"
    unfolding systemPrompt_def option.case
    by (rule part_of_line_in_join_lines
          [where l = "''   - Added lines (starting with +)''"
          and a = "''   - ''" and b = "[]"]) simp_all
  have three: "sublist ''Include at least 3 lines of context before and after changes'' (systemPrompt (Some cf))"
    unfolding systemPrompt_def option.case
    by (rule part_of_line_in_join_lines
          [where l = "''3. Include at least 3 lines of context before and after changes''"
          and a = "''3. ''" and b = "[]"]) simp_all
  have explain: \<open>sublist ''Provide a clear explanation of what you're changing and why'' (systemPrompt (Some cf))\<close>
    unfolding systemPrompt_def option.case
    by (rule part_of_line_in_join_lines
          [where l = \<open>''4. Provide a clear explanation of what you're changing and why''\<close>
          and a = "''4. ''" and b = "[]"]) simp_all
  have generic: "systemPrompt None =
       ''You are an AI coding assistant. Help the user with their coding questions. When you need to suggest code changes, use the editFileWithPatch tool.''"
    by (simp add: systemPrompt_def)
  have "systemPrompt None =
       ''You are an AI coding assistant. Help the user with their coding questions. ''
       @ ''When you need to suggest code changes, use the editFileWithPatch tool.'' @ []"
    by (simp add: systemPrompt_def)
  then have directs: "sublist ''When you need to suggest code changes, use the editFileWithPatch tool.'' (systemPrompt None)"
    unfolding sublist_def by blast
  from path content must format paths hunks ctx removed added three explain generic directs
  show ?thesis by blast
qed

text \<open>
  C6. Prompt composition is deterministic: the system prompt that reaches the model is
  \<open>systemPrompt\<close> of the request's \<open>currentFile\<close> and of nothing else. Two runs of the
  handler on bodies with the same \<open>currentFile\<close> (present or absent), whatever their
  sessions, messages and message converters, call the model with identical system prompts.
\<close>

lemma model_calls_append: "model_calls (xs @ ys) = model_calls xs @ model_calls ys"
  by (induction xs rule: model_calls.induct) simp_all

lemma model_calls_POST_catch: "model_calls (snd (POST_catch e)) = []"
  by (cases e) (simp_all add: POST_catch_def)

lemma POST_model_call_system:
  assumes "req_json req = Inr body"
    and "a \<in> set (model_calls (snd (POST convertToModelMessages req)))"
  shows "system a = systemPrompt (currentFile (destructure body))"
  using assms
  by (auto simp: POST_def POST_try_def zparse_def Let_def model_calls_append model_calls_POST_catch
      split: sum.splits if_splits list.splits)

lemma destructure_currentFile_cong:
  "own_property b1 ''currentFile'' = own_property b2 ''currentFile'' \<Longrightarrow>
   currentFile (destructure b1) = currentFile (destructure b2)"
  by (simp add: destructure_def)

theorem systemPrompt_deterministic:
  assumes "req_json req1 = Inr body1" and "req_json req2 = Inr body2"
    and "own_property body1 ''currentFile'' = own_property body2 ''currentFile''"
    and "a1 \<in> set (model_calls (snd (POST convert1 req1)))"
    and "a2 \<in> set (model_calls (snd (POST convert2 req2)))"
  shows "system a1 = system a2
         \<and> system a1 = systemPrompt (currentFile (destructure body1))"
  using POST_model_call_system [OF assms(1) assms(4)] POST_model_call_system [OF assms(2) assms(5)]
    destructure_currentFile_cong [OF assms(3)]
  by simp

theorem systemPrompt_deterministic_witness:
  \<open>\<lparr> model = ''anthropic/claude-sonnet-4.5'',
       system = systemPrompt (Some \<lparr> path = ''/src/a.ts'', content = ''function f(){}'' \<rparr>),
       messages = [JObj [(''role'', JStr ''user''), (''content'', JStr ''add a console.log'')]] \<rparr>
     \<in> set (model_calls (snd (POST Inr
         \<lparr> getSession = Inr (JObj [(''user'', JObj [(''id'', JStr ''u1'')])]),
           req_json = Inr (JObj
             [(''messages'', JArr [JObj [(''role'', JStr ''user''), (''content'', JStr ''add a console.log'')]]),
              (''currentFile'', JObj [(''path'', JStr ''/src/a.ts''), (''content'', JStr ''function f(){}'')])]) \<rparr>)))
   \<and> \<lparr> model = ''anthropic/claude-sonnet-4.5'',
       system = systemPrompt (Some \<lparr> path = ''/src/a.ts'', content = ''function f(){}'' \<rparr>),
       messages = ([] :: json list) \<rparr>
     \<in> set (model_calls (snd (POST Inr
         \<lparr> getSession = Inr (JObj [(''user'', JObj [(''id'', JStr ''u2'')])]),
           req_json = Inr (JObj
             [(''currentFile'', JObj [(''path'', JStr ''/src/a.ts''), (''content'', JStr ''function f(){}'')]),
              (''messages'', JArr [])]) \<rparr>)))
   \<and> system \<lparr> model = ''anthropic/claude-sonnet-4.5'',
         system = systemPrompt (Some \<lparr> path = ''/src/a.ts'', content = ''function f(){}'' \<rparr>),
         messages = [JObj [(''role'', JStr ''user''), (''content'', JStr ''add a console.log'')]] \<rparr>
     = system \<lparr> model = ''anthropic/claude-sonnet-4.5'',
         system = systemPrompt (Some \<lparr> path = ''/src/a.ts'', content = ''function f(){}'' \<rparr>),
         messages = ([] :: json list) \<rparr>\<close>
proof -
  let ?cf = "JObj [(''path'', JStr ''/src/a.ts''), (''content'', JStr ''function f(){}'')]"
  let ?body1 = "JObj [(''messages'', JArr [JObj [(''role'', JStr ''user''),
                   (''content'', JStr ''add a console.log'')]]), (''currentFile'', ?cf)]"
  let ?body2 = "JObj [(''currentFile'', ?cf), (''messages'', JArr [])]"
  let ?req1 = "\<lparr> getSession = Inr (JObj [(''user'', JObj [(''id'', JStr ''u1'')])]), req_json = Inr ?body1 \<rparr>"
  let ?req2 = "\<lparr> getSession = Inr (JObj [(''user'', JObj [(''id'', JStr ''u2'')])]), req_json = Inr ?body2 \<rparr>"
  let ?a1 = "\<lparr> model = ''anthropic/claude-sonnet-4.5'',
             system = systemPrompt (Some \<lparr> path = ''/src/a.ts'', content = ''function f(){}'' \<rparr>),
             messages = [JObj [(''role'', JStr ''user''), (''content'', JStr ''add a console.log'')]] \<rparr>"
  let ?a2 = "\<lparr> model = ''anthropic/claude-sonnet-4.5'',
             system = systemPrompt (Some \<lparr> path = ''/src/a.ts'', content = ''function f(){}'' \<rparr>),
             messages = ([] :: json list) \<rparr>"
  have b1: "req_json ?req1 = Inr ?body1" and b2: "req_json ?req2 = Inr ?body2"
    by simp_all
  have same: "own_property ?body1 ''currentFile'' = own_property ?body2 ''currentFile''"
    by simp
  have c1: "?a1 \<in> set (model_calls (snd (POST Inr ?req1)))"
    by (simp add: POST_def POST_try_def zparse_def requestSchema_def destructure_def
        get_property_def optional_chain_def Let_def)
  have c2: "?a2 \<in> set (model_calls (snd (POST Inr ?req2)))"
    by (simp add: POST_def POST_try_def zparse_def requestSchema_def destructure_def
        get_property_def optional_chain_def Let_def)
  from systemPrompt_deterministic [OF b1 b2 same c1 c2] c1 c2 show ?thesis
    by blast
qed

section \<open>Properties of route protection\<close>

text \<open>
  C8. For every request whose path is not an authentication page and not an API route
  and which carries no valid session (the session endpoint answers with no data), the
  middleware responds with a redirect to \<open>/auth/login\<close> on the origin of the request, with
  the requested pathname as the value of the \<open>redirect\<close> query parameter; an
  unauthenticated request to \<open>/dashboard\<close> is redirected to \<open>/auth/login\<close> with
  \<open>redirect = /dashboard\<close>.
\<close>

theorem middleware_redirects_to_login:
  assumes "\<not> auth_or_api_path (pathname (nextUrl request))"
    and "betterFetch ''/api/auth/get-session''
           \<lparr> baseURL = origin (nextUrl request), headers = [(''cookie'', cookie_or_empty request)] \<rparr>
         = Inr session"
    and "\<not> truthy (Some (data session))"
  shows "fst (middleware betterFetch request) =
           Inr (NextResponse_redirect \<lparr> origin = origin (nextUrl request), pathname = ''/auth/login'',
             searchParams = [(''redirect'', pathname (nextUrl request))] \<rparr>)"
  using assms by (simp add: middleware_def new_URL_def auth_or_api_path_def Let_def)

theorem middleware_redirects_to_login_witness:
  "fst (middleware fetch_no_session
     \<lparr> nextUrl = \<lparr> origin = ''http://localhost:3000'', pathname = ''/dashboard'', searchParams = [] \<rparr>,
       cookie = None \<rparr>) =
   Inr (NextResponse_redirect \<lparr> origin = ''http://localhost:3000'', pathname = ''/auth/login'',
     searchParams = [(''redirect'', ''/dashboard'')] \<rparr>)"
proof -
  let ?request = "\<lparr> nextUrl = \<lparr> origin = ''http://localhost:3000'', pathname = ''/dashboard'',
                     searchParams = [] \<rparr>, cookie = None \<rparr>"
  have a: "\<not> auth_or_api_path (pathname (nextUrl ?request))"
    by (simp add: auth_or_api_path_def startsWith_def)
  have b: "fetch_no_session ''/api/auth/get-session''
             \<lparr> baseURL = origin (nextUrl ?request), headers = [(''cookie'', cookie_or_empty ?request)] \<rparr>
           = Inr \<lparr> data = JNull, error = JNull \<rparr>"
    by (simp add: fetch_no_session_def)
  have c: "\<not> truthy (Some (data \<lparr> data = JNull, error = JNull \<rparr>))"
    by simp
  from middleware_redirects_to_login
         [where betterFetch = fetch_no_session and request = "?request", OF a b c]
  show ?thesis
    by simp
qed

text \<open>
  C10. A request whose path is a static asset (it starts with \<open>/_next/static\<close>,
  \<open>/_next/image\<close> or \<open>/favicon.ico\<close>, or ends in \<open>.svg\<close>, \<open>.png\<close>, \<open>.jpg\<close>, \<open>.jpeg\<close>,
  \<open>.gif\<close> or \<open>.webp\<close>) or starts with \<open>/auth/login\<close>, \<open>/auth/signup\<close> or \<open>/api/\<close>
  bypasses the session check: no session lookup is performed and the request is never
  redirected, whatever the session endpoint would answer.
\<close>

lemma list_all_take: "list_all P xs \<Longrightarrow> list_all P (take n xs)"
  by (auto simp: list_all_iff dest: in_set_takeD)

lemma favicon_lookahead: "startsWith rest ''favicon.ico'' \<Longrightarrow> lookahead_favicon rest"
  by (auto simp: startsWith_def prefix_def lookahead_favicon_def regex_dot_def)

lemma extension_lookahead:
  assumes "list_ex (\<lambda>ext. endsWith (CHR ''/'' # rest) (''.'' @ ext)) image_extensions"
    and "list_all regex_dot rest"
  shows "lookahead_extension rest"
proof -
  from assms(1) obtain ext where ext: "ext \<in> set image_extensions"
    and "suffix (''.'' @ ext) (CHR ''/'' # rest)"
    by (auto simp: list_ex_iff endsWith_def)
  then have "suffix (''.'' @ ext) rest"
    by (simp add: suffix_Cons)
  with assms(2) ext show ?thesis
    unfolding lookahead_extension_def list_ex_iff endsWith_def
    by (blast intro: list_all_take)
qed

lemma static_asset_not_matched: "static_asset_path p \<Longrightarrow> \<not> matcher p"
proof (cases p)
  case Nil
  then show ?thesis by simp
next
  case (Cons c rest)
  assume static: "static_asset_path p"
  show ?thesis
  proof (cases "c = CHR ''/'' \<and> list_all regex_dot rest")
    case False
    with Cons show ?thesis by auto
  next
    case True
    from static Cons True consider
        "startsWith rest ''_next/static''" | "startsWith rest ''_next/image''"
      | "startsWith rest ''favicon.ico''"
      | "list_ex (\<lambda>ext. endsWith (CHR ''/'' # rest) (''.'' @ ext)) image_extensions"
      by (auto simp: static_asset_path_def startsWith_def)
    then have "lookahead rest"
    proof cases
      case 3
      then show ?thesis by (simp add: lookahead_def favicon_lookahead)
    next
      case 4
      with True show ?thesis by (simp add: lookahead_def extension_lookahead)
    qed (simp_all add: lookahead_def)
    with Cons show ?thesis by simp
  qed
qed

theorem unprotected_paths_bypass_session_check:
  assumes "static_asset_path (pathname (nextUrl request)) \<or> auth_or_api_path (pathname (nextUrl request))"
  shows "snd (run_middleware betterFetch request) = []
         \<and> (fst (run_middleware betterFetch request) = None
            \<or> fst (run_middleware betterFetch request) = Some (Inr NextResponse_next))"
  using assms static_asset_not_matched [of "pathname (nextUrl request)"]
  by (auto simp: run_middleware_def middleware_def auth_or_api_path_def)

theorem unprotected_paths_bypass_session_check_witness:
  "run_middleware fetch_session
     \<lparr> nextUrl = \<lparr> origin = ''http://localhost:3000'', pathname = ''/logo.png'', searchParams = [] \<rparr>,
       cookie = None \<rparr> = (None, [])
   \<and> run_middleware fetch_no_session
     \<lparr> nextUrl = \<lparr> origin = ''http://localhost:3000'', pathname = ''/api/ai/chat'', searchParams = [] \<rparr>,
       cookie = None \<rparr> = (Some (Inr NextResponse_next), [])"
proof -
  let ?png = "\<lparr> nextUrl = \<lparr> origin = ''http://localhost:3000'', pathname = ''/logo.png'',
                 searchParams = [] \<rparr>, cookie = None \<rparr>"
  let ?api = "\<lparr> nextUrl = \<lparr> origin = ''http://localhost:3000'', pathname = ''/api/ai/chat'',
                 searchParams = [] \<rparr>, cookie = None \<rparr>"
  have a: "static_asset_path (pathname (nextUrl ?png)) \<or> auth_or_api_path (pathname (nextUrl ?png))"
    by (simp add: static_asset_path_def image_extensions_def endsWith_def suffix_to_prefix)
  have b: "static_asset_path (pathname (nextUrl ?api)) \<or> auth_or_api_path (pathname (nextUrl ?api))"
    by (simp add: auth_or_api_path_def startsWith_def)
  have m: "matcher ''/api/ai/chat''"
    by (simp add: lookahead_def lookahead_favicon_def lookahead_extension_def image_extensions_def
        startsWith_def endsWith_def suffix_to_prefix regex_dot_def)
  have n: "\<not> matcher ''/logo.png''"
    by (simp add: lookahead_def lookahead_favicon_def lookahead_extension_def image_extensions_def
        startsWith_def endsWith_def suffix_to_prefix regex_dot_def)
  from unprotected_paths_bypass_session_check [OF a, of fetch_session]
       unprotected_paths_bypass_session_check [OF b, of fetch_no_session] m n
  show ?thesis
    by (simp add: run_middleware_def prod_eq_iff)
qed

end
